theory Spec2Isabelle
  imports Main
begin

section \<open>JavaScript values\<close>

text \<open>
  A JavaScript \<open>number\<close> as the wrapper meets it: times are integral milliseconds
  (\<open>Date.now()\<close>), and a time-to-live may also be \<open>Number.POSITIVE_INFINITY\<close>, its
  negative, or \<open>NaN\<close>. An optional property is an \<open>option\<close>, \<open>None\<close> being
  \<open>undefined\<close>.
\<close>

datatype jsnum = Fin int | PInf | NInf | NaN

text \<open>Truthiness of an optional boolean and of an optional number.\<close>

fun js_true :: "bool option \<Rightarrow> bool" where
  "js_true (Some b) = b"
| "js_true None = False"

fun js_truthy :: "jsnum option \<Rightarrow> bool" where
  "js_truthy None = False"
| "js_truthy (Some (Fin n)) = (n \<noteq> 0)"
| "js_truthy (Some NaN) = False"
| "js_truthy (Some PInf) = True"
| "js_truthy (Some NInf) = True"

text \<open>\<open>Date.now() - cacheEntry?.fetchedAt\<close>: a number minus \<open>undefined\<close> is \<open>NaN\<close>.\<close>

fun js_minus :: "int \<Rightarrow> int option \<Rightarrow> jsnum" where
  "js_minus now None = NaN"
| "js_minus now (Some t) = Fin (now - t)"

text \<open>The operator \<open><\<close>; \<open>undefined\<close> converts to \<open>NaN\<close>, and \<open>NaN\<close> compares false.\<close>

fun js_less :: "jsnum \<Rightarrow> jsnum option \<Rightarrow> bool" where
  "js_less NaN _ = False"
| "js_less _ None = False"
| "js_less _ (Some NaN) = False"
| "js_less (Fin a) (Some (Fin b)) = (a < b)"
| "js_less (Fin a) (Some PInf) = True"
| "js_less (Fin a) (Some NInf) = False"
| "js_less PInf _ = False"
| "js_less NInf (Some NInf) = False"
| "js_less NInf (Some _) = True"

text \<open>\<open>codes.includes(err?.code)\<close> on a \<open>string[]\<close>.\<close>

fun includes_code :: "string list \<Rightarrow> string option \<Rightarrow> bool" where
  "includes_code codes None = False"
| "includes_code codes (Some c) = (c \<in> set codes)"

section \<open>Options and cache entries\<close>

record CacheTime =
  locked :: "bool option"
  time :: "jsnum option"
  bypassLockedTime :: "bool option"

record CacheOptions =
  enabled :: "bool option"
  cacheTime :: "CacheTime option"
  forceRefresh :: "bool option"

text \<open>
  \<open>RetryOptions.enabled\<close> is the field \<open>retry_enabled\<close> here, field names being global.
  \<open>maxRetries\<close> and \<open>retryDelay\<close> are integers.
\<close>

record RetryOptions =
  retry_enabled :: "bool option"
  maxRetries :: "int option"
  retryDelay :: "int option"
  retryOnErrorCode :: "string list option"

record Options =
  cacheOptions :: "CacheOptions option"
  retryOptions :: "RetryOptions option"

record 'a CacheEntry =
  doc :: "'a option"
  fetchedAt :: int
  persistentCacheTime :: "jsnum option"

text \<open>Optional chaining, \<open>options?.cacheOptions?.enabled\<close> and its siblings.\<close>

definition opt_enabled :: "Options option \<Rightarrow> bool option" where
  "opt_enabled options = Option.bind (Option.bind options cacheOptions) enabled"

definition opt_forceRefresh :: "Options option \<Rightarrow> bool option" where
  "opt_forceRefresh options = Option.bind (Option.bind options cacheOptions) forceRefresh"

definition opt_cacheTime :: "Options option \<Rightarrow> CacheTime option" where
  "opt_cacheTime options = Option.bind (Option.bind options cacheOptions) cacheTime"

definition opt_locked :: "Options option \<Rightarrow> bool option" where
  "opt_locked options = Option.bind (opt_cacheTime options) locked"

definition opt_time :: "Options option \<Rightarrow> jsnum option" where
  "opt_time options = Option.bind (opt_cacheTime options) time"

definition opt_bypassLockedTime :: "Options option \<Rightarrow> bool option" where
  "opt_bypassLockedTime options = Option.bind (opt_cacheTime options) bypassLockedTime"

definition opt_retryOptions :: "Options option \<Rightarrow> RetryOptions option" where
  "opt_retryOptions options = Option.bind options retryOptions"

section \<open>Collaborators and the world they act on\<close>

text \<open>
  What \<open>getDoc\<close> throws is a value with an optional \<open>code\<close>; a snapshot answers
  \<open>data()\<close> with the payload or \<open>undefined\<close>.
\<close>

datatype firestore_error = FirestoreError (code: "string option") (info: string)

datatype 'a snapshot = Snapshot (data: "'a option")

text \<open>
  The three kinds of rejection: the value thrown by \<open>getDoc\<close>, unchanged; the
  \<open>Error\<close> the wrapper makes itself; an error of the key-value store.
\<close>

datatype thrown = Thrown firestore_error | JsError string | IdbError string

definition not_in_list_message :: string where
  "not_in_list_message =
     ''Firestore threw an error but its code was not in the list of error codes to retry on''"

datatype 'a event =
    IdbGet string
  | IdbDel string
  | IdbSet string "'a CacheEntry"
  | GetDoc string
  | Timeout int

text \<open>
  The world: the contents of the \<open>firestoreWrapperCache\<close> store, the number of calls
  \<open>getDoc\<close> has received, and the log of the collaborator calls made, in order.
\<close>

record 'a world =
  store :: "string \<rightharpoonup> 'a CacheEntry"
  fetches :: nat
  trace :: "'a event list"

text \<open>
  The collaborators' behaviour is a parameter: what the \<open>k\<close>-th call of \<open>getDoc\<close>
  answers for a path, whether \<open>get\<close>, \<open>del\<close> and \<open>set\<close> of the store reject, and
  the two readings of \<open>Date.now()\<close> a call makes (in the freshness check, and when the
  new entry is built).
\<close>

record 'a env =
  getDoc :: "string \<Rightarrow> nat \<Rightarrow> firestore_error + 'a snapshot"
  get_fails :: "string option"
  del_fails :: "string option"
  set_fails :: "string option"
  now_check :: int
  now_fetched :: int

definition note_getDoc :: "string \<Rightarrow> 'a world \<Rightarrow> 'a world" where
  "note_getDoc path w = w\<lparr>fetches := Suc (fetches w), trace := trace w @ [GetDoc path]\<rparr>"

definition timeout :: "int \<Rightarrow> 'a world \<Rightarrow> 'a world" where
  "timeout ms w = w\<lparr>trace := trace w @ [Timeout ms]\<rparr>"

definition idb_get ::
  "'a env \<Rightarrow> string \<Rightarrow> 'a world \<Rightarrow> (string + 'a CacheEntry option) \<times> 'a world" where
  "idb_get e path w =
     (case get_fails e of
        Some x \<Rightarrow> (Inl x, w\<lparr>trace := trace w @ [IdbGet path]\<rparr>)
      | None \<Rightarrow> (Inr (store w path), w\<lparr>trace := trace w @ [IdbGet path]\<rparr>))"

definition idb_del :: "'a env \<Rightarrow> string \<Rightarrow> 'a world \<Rightarrow> (string + unit) \<times> 'a world" where
  "idb_del e path w =
     (case del_fails e of
        Some x \<Rightarrow> (Inl x, w\<lparr>trace := trace w @ [IdbDel path]\<rparr>)
      | None \<Rightarrow> (Inr (), w\<lparr>store := (store w)(path := None), trace := trace w @ [IdbDel path]\<rparr>))"

definition idb_set ::
  "'a env \<Rightarrow> string \<Rightarrow> 'a CacheEntry \<Rightarrow> 'a world \<Rightarrow> (string + unit) \<times> 'a world" where
  "idb_set e path entry w =
     (case set_fails e of
        Some x \<Rightarrow> (Inl x, w\<lparr>trace := trace w @ [IdbSet path entry]\<rparr>)
      | None \<Rightarrow>
          (Inr (), w\<lparr>store := (store w)(path \<mapsto> entry), trace := trace w @ [IdbSet path entry]\<rparr>))"

section \<open>The retrying fetcher: \<open>requestDoc\<close>\<close>

text \<open>
  \<open>src/index.ts\<close>, lines 31 to 60. The two defaults, \<open>retryOptions?.maxRetries || 3\<close> and
  \<open>retryOptions?.retryDelay || 0\<close>: a falsy number is \<open>0\<close> or an absent one.
\<close>

definition maxRetries_of :: "RetryOptions option \<Rightarrow> int" where
  "maxRetries_of ro =
     (case Option.bind ro maxRetries of None \<Rightarrow> 3 | Some n \<Rightarrow> if n = 0 then 3 else n)"

definition retryDelay_of :: "RetryOptions option \<Rightarrow> int" where
  "retryDelay_of ro =
     (case Option.bind ro retryDelay of None \<Rightarrow> 0 | Some n \<Rightarrow> if n = 0 then 0 else n)"

text \<open>
  The inner \<open>request\<close>; the closure's counter \<open>retries\<close> is an argument. It is
  incremented before the allow-list is looked at, and no call follows the increment when
  the wrapper's own error is thrown.
\<close>

function request ::
  "'a env \<Rightarrow> string \<Rightarrow> RetryOptions option \<Rightarrow> nat \<Rightarrow> 'a world \<Rightarrow> (thrown + 'a snapshot) \<times> 'a world"
  where
  "request e path ro retries w =
     (case getDoc e path (fetches w) of
        Inr snap \<Rightarrow> (Inr snap, note_getDoc path w)
      | Inl err \<Rightarrow>
          if js_true (Option.bind ro retry_enabled) then
            if int retries < maxRetries_of ro - 1 then
              (case Option.bind ro retryOnErrorCode of
                 None \<Rightarrow>
                   request e path ro (Suc retries) (timeout (retryDelay_of ro) (note_getDoc path w))
               | Some codes \<Rightarrow>
                   if includes_code codes (code err) then
                     request e path ro (Suc retries) (timeout (retryDelay_of ro) (note_getDoc path w))
                   else (Inl (JsError not_in_list_message), note_getDoc path w))
            else (Inl (Thrown err), note_getDoc path w)
          else (Inl (Thrown err), note_getDoc path w))"
  by pat_completeness auto
termination
  by (relation "measure (\<lambda>(e, path, ro, retries, w). nat (maxRetries_of ro - 1 - int retries))") auto

declare request.simps [simp del]

definition requestDoc ::
  "'a env \<Rightarrow> string \<Rightarrow> RetryOptions option \<Rightarrow> 'a world \<Rightarrow> (thrown + 'a snapshot) \<times> 'a world"
  where
  "requestDoc e path ro w = request e path ro 0 w"

section \<open>The entry operation: \<open>getDocWrapper\<close>\<close>

text \<open>
  \<open>src/index.ts\<close>, lines 76 to 217. The block the source repeats three times after a
  successful fetch (lines 102 to 117, 131 to 146, 191 to 206): build the new entry, start
  \<open>set\<close>, resolve with \<open>doc.data()\<close>. The promise of \<open>set\<close> is neither awaited nor
  returned, so its outcome is dropped; the write it makes, if it succeeds, is part of the
  world the call leaves behind.
\<close>

definition newDocEntry :: "'a env \<Rightarrow> Options option \<Rightarrow> 'a snapshot \<Rightarrow> 'a CacheEntry" where
  "newDocEntry e options snap =
     \<lparr>doc = data snap, fetchedAt = now_fetched e,
      persistentCacheTime = (if js_true (opt_locked options) then opt_time options else None)\<rparr>"

definition store_and_resolve ::
  "'a env \<Rightarrow> string \<Rightarrow> Options option \<Rightarrow> 'a snapshot \<Rightarrow> 'a world \<Rightarrow> (thrown + 'a option) \<times> 'a world"
  where
  "store_and_resolve e path options snap w =
     (Inr (data snap), snd (idb_set e path (newDocEntry e options snap) w))"

text \<open>
  The block of the forced refresh (lines 128 to 151) and of the stale fallback (lines 188
  to 211), the same text twice: \<open>del\<close>, then the fetch, then the store.
\<close>

definition refetch ::
  "'a env \<Rightarrow> string \<Rightarrow> Options option \<Rightarrow> 'a world \<Rightarrow> (thrown + 'a option) \<times> 'a world" where
  "refetch e path options w =
     (case idb_del e path w of
        (Inl x, w1) \<Rightarrow> (Inl (IdbError x), w1)
      | (Inr _, w1) \<Rightarrow>
          (case requestDoc e path (opt_retryOptions options) w1 of
             (Inl err, w2) \<Rightarrow> (Inl err, w2)
           | (Inr newDoc, w2) \<Rightarrow> store_and_resolve e path options newDoc w2))"

text \<open>
  Every path through the source settles the promise exactly once; \<open>resolve\<close> followed by
  \<open>return\<close> is a branch that ends, and the fall-through to line 188 is \<open>refetch\<close>.
  \<open>Date.now()\<close> is read once on each path through the checks (\<open>now_check\<close>).
\<close>

definition getDocWrapper ::
  "'a env \<Rightarrow> string \<Rightarrow> Options option \<Rightarrow> 'a world \<Rightarrow> (thrown + 'a option) \<times> 'a world" where
  "getDocWrapper e path options w =
     (case idb_get e path w of
        (Inl x, w1) \<Rightarrow> (Inl (IdbError x), w1)
      | (Inr cacheEntry, w1) \<Rightarrow>
          (let pct = Option.bind cacheEntry persistentCacheTime;
               elapsed = js_minus (now_check e) (map_option fetchedAt cacheEntry)
           in
           if \<not> js_true (opt_enabled options) then
             if js_less elapsed pct then (Inr (Option.bind cacheEntry doc), w1)
             else
               (case requestDoc e path (opt_retryOptions options) w1 of
                  (Inl err, w2) \<Rightarrow> (Inl err, w2)
                | (Inr snap, w2) \<Rightarrow> (Inr (data snap), w2))
           else
             (case cacheEntry of
                None \<Rightarrow>
                  (case requestDoc e path (opt_retryOptions options) w1 of
                     (Inl err, w2) \<Rightarrow> (Inl err, w2)
                   | (Inr snap, w2) \<Rightarrow> store_and_resolve e path options snap w2)
              | Some entry \<Rightarrow>
                  if js_true (opt_forceRefresh options) then refetch e path options w1
                  else if js_truthy pct \<and> \<not> js_true (opt_bypassLockedTime options) then
                    if js_true (opt_locked options) then
                      if js_less elapsed (opt_time options) then (Inr (doc entry), w1)
                      else refetch e path options w1
                    else if js_less elapsed pct then (Inr (doc entry), w1)
                    else refetch e path options w1
                  else if js_less elapsed (opt_time options) then (Inr (doc entry), w1)
                  else refetch e path options w1)))"

section \<open>Vocabulary of the properties\<close>

text \<open>The calls that change the persistent store.\<close>

fun is_write :: "'a event \<Rightarrow> bool" where
  "is_write (IdbDel _) = True"
| "is_write (IdbSet _ _) = True"
| "is_write _ = False"

text \<open>
  The test \<open>request\<close> makes of a caught error once budget remains: no allow-list, or the
  error's code is in it.
\<close>

definition retried :: "RetryOptions option \<Rightarrow> firestore_error \<Rightarrow> bool" where
  "retried ro err =
     (case Option.bind ro retryOnErrorCode of
        None \<Rightarrow> True
      | Some codes \<Rightarrow> includes_code codes (code err))"

text \<open>
  The freshness verdict of \<open>getDocWrapper\<close> on an existing entry when the cache is enabled
  and no refresh is forced: the three comparisons of the source, one per branch.
\<close>

definition cache_fresh :: "'a env \<Rightarrow> Options option \<Rightarrow> 'a CacheEntry \<Rightarrow> bool" where
  "cache_fresh e options entry =
     (let elapsed = Fin (now_check e - fetchedAt entry) in
      if js_truthy (persistentCacheTime entry) \<and> \<not> js_true (opt_bypassLockedTime options) then
        if js_true (opt_locked options) then js_less elapsed (opt_time options)
        else js_less elapsed (persistentCacheTime entry)
      else js_less elapsed (opt_time options))"

text \<open>The world after \<open>get\<close> has been called, and after \<open>get\<close> and \<open>del\<close> succeeded.\<close>

definition after_get :: "string \<Rightarrow> 'a world \<Rightarrow> 'a world" where
  "after_get path w = w\<lparr>trace := trace w @ [IdbGet path]\<rparr>"

definition after_del :: "string \<Rightarrow> 'a world \<Rightarrow> 'a world" where
  "after_del path w =
     w\<lparr>store := (store w)(path := None), trace := trace w @ [IdbGet path, IdbDel path]\<rparr>"

subsection \<open>Scenarios in the manner of the repository's tests\<close>

text \<open>
  The test double of \<open>getDoc\<close>: \<open>validRequest\<close> answers the current test document,
  \<open>validRequestAfterThreeRetries\<close> rejects twice with \<open>{code: "test-error-code"}\<close> and
  then answers, \<open>nonExistentDoc\<close> answers a snapshot without data, and any other path
  rejects.
\<close>

definition test_error :: firestore_error where
  "test_error = FirestoreError (Some ''test-error-code'') []"

definition mock_getDoc :: "string \<Rightarrow> string \<Rightarrow> nat \<Rightarrow> firestore_error + string snapshot" where
  "mock_getDoc payload path k =
     (if path = ''validRequest'' then Inr (Snapshot (Some payload))
      else if path = ''validRequestAfterThreeRetries'' then
        (if k < 2 then Inl test_error else Inr (Snapshot (Some payload)))
      else if path = ''nonExistentDoc'' then Inr (Snapshot None)
      else Inl test_error)"

definition mock_env :: "string \<Rightarrow> int \<Rightarrow> string env" where
  "mock_env payload now =
     \<lparr>getDoc = mock_getDoc payload, get_fails = None, del_fails = None, set_fails = None,
      now_check = now, now_fetched = now\<rparr>"

definition empty_world :: "string world" where
  "empty_world = \<lparr>store = Map.empty, fetches = 0, trace = []\<rparr>"

definition cached_world :: "string \<Rightarrow> string CacheEntry \<Rightarrow> string world" where
  "cached_world path entry = \<lparr>store = [path \<mapsto> entry], fetches = 0, trace = []\<rparr>"

definition cache_options :: "bool option \<Rightarrow> CacheTime option \<Rightarrow> bool option \<Rightarrow> Options option" where
  "cache_options en ct fr =
     Some \<lparr>cacheOptions = Some \<lparr>enabled = en, cacheTime = ct, forceRefresh = fr\<rparr>,
           retryOptions = None\<rparr>"

definition retry_options :: "int option \<Rightarrow> string list option \<Rightarrow> RetryOptions" where
  "retry_options n codes =
     \<lparr>retry_enabled = Some True, maxRetries = n, retryDelay = None, retryOnErrorCode = codes\<rparr>"

section \<open>The retrying fetcher, step by step\<close>

lemma note_getDoc_simps [simp]:
  "store (note_getDoc path w) = store w"
  "fetches (note_getDoc path w) = Suc (fetches w)"
  "trace (note_getDoc path w) = trace w @ [GetDoc path]"
  by (simp_all add: note_getDoc_def)

lemma timeout_simps [simp]:
  "store (timeout ms w) = store w"
  "fetches (timeout ms w) = fetches w"
  "trace (timeout ms w) = trace w @ [Timeout ms]"
  by (simp_all add: timeout_def)

lemma request_answer:
  "getDoc e path (fetches w) = Inr snap \<Longrightarrow>
   request e path ro retries w = (Inr snap, note_getDoc path w)"
  by (subst request.simps) simp

lemma request_again:
  "getDoc e path (fetches w) = Inl err \<Longrightarrow> js_true (Option.bind ro retry_enabled) \<Longrightarrow>
   int retries < maxRetries_of ro - 1 \<Longrightarrow> retried ro err \<Longrightarrow>
   request e path ro retries w =
     request e path ro (Suc retries) (timeout (retryDelay_of ro) (note_getDoc path w))"
  by (subst request.simps) (simp add: retried_def split: option.splits)

lemma request_not_listed:
  "getDoc e path (fetches w) = Inl err \<Longrightarrow> js_true (Option.bind ro retry_enabled) \<Longrightarrow>
   int retries < maxRetries_of ro - 1 \<Longrightarrow> \<not> retried ro err \<Longrightarrow>
   request e path ro retries w = (Inl (JsError not_in_list_message), note_getDoc path w)"
  by (subst request.simps) (simp add: retried_def split: option.splits)

lemma request_give_up:
  "getDoc e path (fetches w) = Inl err \<Longrightarrow>
   \<not> (js_true (Option.bind ro retry_enabled) \<and> int retries < maxRetries_of ro - 1) \<Longrightarrow>
   request e path ro retries w = (Inl (Thrown err), note_getDoc path w)"
  by (subst request.simps) auto

text \<open>The four cases cover every call; an induction over them.\<close>

lemma request_cases_induct [consumes 0, case_names answer again not_listed give_up]:
  fixes P :: "'a env \<Rightarrow> string \<Rightarrow> RetryOptions option \<Rightarrow> nat \<Rightarrow> 'a world \<Rightarrow> bool"
  assumes "\<And>e path ro retries w snap. getDoc e path (fetches w) = Inr snap \<Longrightarrow> P e path ro retries w"
    and "\<And>e path ro retries w err.
          getDoc e path (fetches w) = Inl err \<Longrightarrow> js_true (Option.bind ro retry_enabled) \<Longrightarrow>
          int retries < maxRetries_of ro - 1 \<Longrightarrow> retried ro err \<Longrightarrow>
          P e path ro (Suc retries) (timeout (retryDelay_of ro) (note_getDoc path w)) \<Longrightarrow>
          P e path ro retries w"
    and "\<And>e path ro retries w err.
          getDoc e path (fetches w) = Inl err \<Longrightarrow> js_true (Option.bind ro retry_enabled) \<Longrightarrow>
          int retries < maxRetries_of ro - 1 \<Longrightarrow> \<not> retried ro err \<Longrightarrow> P e path ro retries w"
    and "\<And>e path ro retries w err.
          getDoc e path (fetches w) = Inl err \<Longrightarrow>
          \<not> (js_true (Option.bind ro retry_enabled) \<and> int retries < maxRetries_of ro - 1) \<Longrightarrow>
          P e path ro retries w"
  shows "P e path ro retries w"
proof (induction e path ro retries w rule: request.induct)
  case (1 e path ro retries w)
  show ?case
  proof (cases "getDoc e path (fetches w)")
    case (Inr snap)
    then show ?thesis by (rule assms(1))
  next
    case (Inl err)
    show ?thesis
    proof (cases "js_true (Option.bind ro retry_enabled) \<and> int retries < maxRetries_of ro - 1")
      case False
      with Inl show ?thesis by (rule assms(4))
    next
      case True
      show ?thesis
      proof (cases "retried ro err")
        case False
        with Inl True show ?thesis by (intro assms(3)) auto
      next
        case yes: True
        have rec: "P e path ro (Suc retries) (timeout (retryDelay_of ro) (note_getDoc path w))"
        proof (cases "Option.bind ro retryOnErrorCode")
          case None
          with Inl True show ?thesis by (intro "1.IH"(1)) auto
        next
          case (Some codes)
          with Inl True yes show ?thesis
            by (intro "1.IH"(2) [of err codes]) (auto simp: retried_def)
        qed
        show ?thesis by (rule assms(2) [OF Inl _ _ yes rec]) (use True in auto)
      qed
    qed
  qed
qed

lemmas request_ends = request_answer request_not_listed request_give_up

lemma request_store: "store (snd (request e path ro retries w)) = store w"
proof (induction e path ro retries w rule: request_cases_induct)
  case (again e path ro retries w err)
  then show ?case by (simp add: request_again [OF again(1-4)])
qed (simp_all add: request_ends)

lemma request_writes:
  "filter is_write (trace (snd (request e path ro retries w))) = filter is_write (trace w)"
proof (induction e path ro retries w rule: request_cases_induct)
  case (again e path ro retries w err)
  then show ?case by (simp add: request_again [OF again(1-4)])
qed (simp_all add: request_ends)

lemma request_fetches_mono: "fetches w < fetches (snd (request e path ro retries w))"
proof (induction e path ro retries w rule: request_cases_induct)
  case (again e path ro retries w err)
  then show ?case by (simp add: request_again [OF again(1-4)])
qed (simp_all add: request_ends)

lemma request_attempts:
  "int retries < maxRetries_of ro \<Longrightarrow>
   int (fetches (snd (request e path ro retries w))) \<le> int (fetches w) + (maxRetries_of ro - int retries)"
proof (induction e path ro retries w rule: request_cases_induct)
  case (again e path ro retries w err)
  then show ?case by (simp add: request_again [OF again(1-4)])
qed (simp_all add: request_ends)

lemma request_options_cong:
  assumes "js_true (Option.bind ro retry_enabled) = js_true (Option.bind ro' retry_enabled)"
    and "maxRetries_of ro = maxRetries_of ro'"
    and "retryDelay_of ro = retryDelay_of ro'"
    and "Option.bind ro retryOnErrorCode = Option.bind ro' retryOnErrorCode"
  shows "request e path ro retries w = request e path ro' retries w"
  using assms
proof (induction e path ro retries w rule: request_cases_induct)
  case (answer e path ro retries w snap)
  then show ?case by (simp add: request_answer)
next
  case (again e path ro retries w err)
  moreover from again have "retried ro' err" by (simp add: retried_def)
  ultimately show ?case
    by (simp add: request_again [OF again(1-4)] request_again [of e path w err ro'])
next
  case (not_listed e path ro retries w err)
  moreover from not_listed have "\<not> retried ro' err" by (simp add: retried_def)
  ultimately show ?case
    by (simp add: request_not_listed [of e path w err])
next
  case (give_up e path ro retries w err)
  then show ?case
    by (simp add: request_give_up [of e path w err])
qed

lemma request_run:
  assumes "js_true (Option.bind ro retry_enabled)"
    and "\<forall>k<m. \<exists>err. getDoc e path (fetches w + k) = Inl err \<and> retried ro err"
    and "int retries + int m \<le> maxRetries_of ro - 1"
  shows "\<exists>w'. request e path ro retries w = request e path ro (retries + m) w'
            \<and> fetches w' = fetches w + m \<and> store w' = store w"
  using assms
proof (induction m arbitrary: retries w)
  case 0
  show ?case by (intro exI [of _ w]) simp
next
  case (Suc m)
  from Suc.prems(2) obtain err where err: "getDoc e path (fetches w) = Inl err" "retried ro err"
    by force
  let ?w1 = "timeout (retryDelay_of ro) (note_getDoc path w)"
  have step: "request e path ro retries w = request e path ro (Suc retries) ?w1"
    using err Suc.prems(1,3) by (intro request_again) auto
  have "\<forall>k<m. \<exists>err. getDoc e path (fetches ?w1 + k) = Inl err \<and> retried ro err"
    using Suc.prems(2) by (auto dest: spec [where x = "Suc _"])
  moreover have "int (Suc retries) + int m \<le> maxRetries_of ro - 1"
    using Suc.prems(3) by simp
  ultimately obtain w' where
    "request e path ro (Suc retries) ?w1 = request e path ro (Suc retries + m) w'"
    "fetches w' = fetches ?w1 + m" "store w' = store ?w1"
    using Suc.IH [OF Suc.prems(1)] by blast
  with step show ?case by (intro exI [of _ w']) simp
qed

section \<open>The entry operation, case by case\<close>

lemma request_trace:
  "\<exists>evs. trace (snd (request e path ro retries w)) = trace w @ GetDoc path # evs"
proof (induction e path ro retries w rule: request_cases_induct)
  case (again e path ro retries w err)
  then show ?case by (auto simp: request_again [OF again(1-4)])
qed (simp_all add: request_ends)

lemma retried_maxRetries [simp]:
  "retried (Some (ro\<lparr>maxRetries := n\<rparr>)) err = retried (Some ro) err"
  by (simp add: retried_def)

text \<open>
  A remote that fails on the next \<open>N - 1\<close> attempts with errors that are retried, and
  answers on the \<open>N\<close>-th: the call with budget \<open>N\<close>, and the call with budget \<open>N - 1\<close>.
\<close>

lemma request_failure_pattern:
  fixes N :: nat
  assumes "js_true (retry_enabled ro)"
    and "\<forall>k<N - 1. getDoc e path (fetches w + k) = Inl (errs k) \<and> retried (Some ro) (errs k)"
    and "getDoc e path (fetches w + (N - 1)) = Inr snap"
  shows "(1 \<le> N \<longrightarrow>
            fst (requestDoc e path (Some (ro\<lparr>maxRetries := Some (int N)\<rparr>)) w) = Inr snap
          \<and> fetches (snd (requestDoc e path (Some (ro\<lparr>maxRetries := Some (int N)\<rparr>)) w)) =
              fetches w + N)
       \<and> (2 \<le> N \<longrightarrow>
            fst (requestDoc e path (Some (ro\<lparr>maxRetries := Some (int N - 1)\<rparr>)) w) =
              Inl (Thrown (errs (N - 2)))
          \<and> fetches (snd (requestDoc e path (Some (ro\<lparr>maxRetries := Some (int N - 1)\<rparr>)) w)) =
              fetches w + (N - 1))"
proof (intro conjI impI)
  let ?ro = "Some (ro\<lparr>maxRetries := Some (int N)\<rparr>)"
  assume N: "1 \<le> N"
  then have max: "maxRetries_of ?ro = int N" by (simp add: maxRetries_of_def)
  have "\<forall>k<N - 1. \<exists>err. getDoc e path (fetches w + k) = Inl err \<and> retried ?ro err"
    using assms(2) by simp
  with assms(1) N max obtain w1 where w1:
    "request e path ?ro 0 w = request e path ?ro (N - 1) w1"
    "fetches w1 = fetches w + (N - 1)"
    using request_run [of ?ro "N - 1" e path w 0] by auto
  have last: "request e path ?ro (N - 1) w1 = (Inr snap, note_getDoc path w1)"
    using assms(3) w1(2) by (intro request_answer) simp
  show "fst (requestDoc e path ?ro w) = Inr snap"
    unfolding requestDoc_def w1(1) last by simp
  show "fetches (snd (requestDoc e path ?ro w)) = fetches w + N"
    unfolding requestDoc_def w1(1) last using N w1(2) by simp
next
  let ?ro = "Some (ro\<lparr>maxRetries := Some (int N - 1)\<rparr>)"
  assume N: "2 \<le> N"
  then have max: "maxRetries_of ?ro = int N - 1" by (simp add: maxRetries_of_def)
  have "\<forall>k<N - 2. \<exists>err. getDoc e path (fetches w + k) = Inl err \<and> retried ?ro err"
    using assms(2) by simp
  with assms(1) N max obtain w1 where w1:
    "request e path ?ro 0 w = request e path ?ro (N - 2) w1"
    "fetches w1 = fetches w + (N - 2)"
    using request_run [of ?ro "N - 2" e path w 0] by auto
  have "N - 2 < N - 1" using N by simp
  with assms(2) have "getDoc e path (fetches w + (N - 2)) = Inl (errs (N - 2))" by blast
  then have "getDoc e path (fetches w1) = Inl (errs (N - 2))"
    unfolding w1(2) .
  then have last: "request e path ?ro (N - 2) w1 =
      (Inl (Thrown (errs (N - 2))), note_getDoc path w1)"
    using max N by (intro request_give_up) auto
  show "fst (requestDoc e path ?ro w) = Inl (Thrown (errs (N - 2)))"
    unfolding requestDoc_def w1(1) last by simp
  show "fetches (snd (requestDoc e path ?ro w)) = fetches w + (N - 1)"
    unfolding requestDoc_def w1(1) last using N w1(2) by simp
qed

lemma getDocWrapper_get_fails:
  "get_fails e = Some x \<Longrightarrow>
   getDocWrapper e path options w = (Inl (IdbError x), after_get path w)"
  by (simp add: getDocWrapper_def idb_get_def after_get_def)

lemma getDocWrapper_disabled:
  assumes "get_fails e = None" and "\<not> js_true (opt_enabled options)"
  shows "getDocWrapper e path options w =
     (if (case store w path of
            None \<Rightarrow> False
          | Some entry \<Rightarrow> js_less (Fin (now_check e - fetchedAt entry)) (persistentCacheTime entry))
      then (Inr (Option.bind (store w path) doc), after_get path w)
      else (map_sum id data (fst (requestDoc e path (opt_retryOptions options) (after_get path w))),
            snd (requestDoc e path (opt_retryOptions options) (after_get path w))))"
  using assms
  by (cases "store w path")
     (simp_all add: getDocWrapper_def idb_get_def after_get_def split: prod.splits sum.splits)

lemma getDocWrapper_no_entry:
  assumes "get_fails e = None" and "js_true (opt_enabled options)" and "store w path = None"
  shows "getDocWrapper e path options w =
     (case requestDoc e path (opt_retryOptions options) (after_get path w) of
        (Inl err, w2) \<Rightarrow> (Inl err, w2)
      | (Inr snap, w2) \<Rightarrow> store_and_resolve e path options snap w2)"
  using assms by (simp add: getDocWrapper_def idb_get_def after_get_def)

lemma getDocWrapper_forced:
  assumes "get_fails e = None" and "js_true (opt_enabled options)" and "store w path = Some entry"
    and "js_true (opt_forceRefresh options)"
  shows "getDocWrapper e path options w = refetch e path options (after_get path w)"
  using assms by (simp add: getDocWrapper_def idb_get_def after_get_def)

lemma getDocWrapper_checked:
  assumes "get_fails e = None" and "js_true (opt_enabled options)" and "store w path = Some entry"
    and "\<not> js_true (opt_forceRefresh options)"
  shows "getDocWrapper e path options w =
     (if cache_fresh e options entry then (Inr (doc entry), after_get path w)
      else refetch e path options (after_get path w))"
  using assms by (auto simp: getDocWrapper_def idb_get_def after_get_def cache_fresh_def Let_def)

lemma refetch_del_fails:
  "del_fails e = Some x \<Longrightarrow>
   refetch e path options w = (Inl (IdbError x), w\<lparr>trace := trace w @ [IdbDel path]\<rparr>)"
  by (simp add: refetch_def idb_del_def)

lemma refetch_after_get:
  "del_fails e = None \<Longrightarrow>
   refetch e path options (after_get path w) =
     (case requestDoc e path (opt_retryOptions options) (after_del path w) of
        (Inl err, w2) \<Rightarrow> (Inl err, w2)
      | (Inr snap, w2) \<Rightarrow> store_and_resolve e path options snap w2)"
  by (simp add: refetch_def idb_del_def after_get_def after_del_def)

lemma store_and_resolve_simps:
  "fst (store_and_resolve e path options snap w) = Inr (data snap)"
  "trace (snd (store_and_resolve e path options snap w)) =
     trace w @ [IdbSet path (newDocEntry e options snap)]"
  "fetches (snd (store_and_resolve e path options snap w)) = fetches w"
  "store (snd (store_and_resolve e path options snap w)) =
     (case set_fails e of
        None \<Rightarrow> (store w)(path \<mapsto> newDocEntry e options snap)
      | Some x \<Rightarrow> store w)"
  by (simp_all add: store_and_resolve_def idb_set_def split: option.splits)

lemma requestDoc_store: "store (snd (requestDoc e path ro w)) = store w"
  by (simp add: requestDoc_def request_store)

lemma requestDoc_writes:
  "filter is_write (trace (snd (requestDoc e path ro w))) = filter is_write (trace w)"
  by (simp add: requestDoc_def request_writes)

lemma requestDoc_fetches: "fetches w < fetches (snd (requestDoc e path ro w))"
  by (simp add: requestDoc_def request_fetches_mono)

lemma requestDoc_trace:
  "\<exists>evs. trace (snd (requestDoc e path ro w)) = trace w @ GetDoc path # evs"
  by (simp add: requestDoc_def request_trace)

lemma after_simps [simp]:
  "store (after_get path w) = store w"
  "fetches (after_get path w) = fetches w"
  "trace (after_get path w) = trace w @ [IdbGet path]"
  "store (after_del path w) = (store w)(path := None)"
  "fetches (after_del path w) = fetches w"
  "trace (after_del path w) = trace w @ [IdbGet path, IdbDel path]"
  by (simp_all add: after_get_def after_del_def)

text \<open>
  What a refetch started after a successful \<open>get\<close> does once \<open>del\<close> has succeeded,
  in terms of the outcome \<open>(r, w2)\<close> of the fetch that follows the deletion.
\<close>

lemma refetch_outcome:
  assumes "del_fails e = None"
    and "requestDoc e path (opt_retryOptions options) (after_del path w) = (r, w2)"
  shows "refetch e path options (after_get path w) =
     (case r of
        Inl err \<Rightarrow> (Inl err, w2)
      | Inr snap \<Rightarrow> store_and_resolve e path options snap w2)"
    and "store w2 = (store w)(path := None)"
    and "\<exists>evs. trace w2 = trace w @ IdbGet path # IdbDel path # GetDoc path # evs"
    and "filter is_write (trace w2) = filter is_write (trace w) @ [IdbDel path]"
    and "fetches w < fetches w2"
proof -
  show "refetch e path options (after_get path w) =
     (case r of
        Inl err \<Rightarrow> (Inl err, w2)
      | Inr snap \<Rightarrow> store_and_resolve e path options snap w2)"
    by (simp add: refetch_after_get assms split: sum.splits)
  have w2: "w2 = snd (requestDoc e path (opt_retryOptions options) (after_del path w))"
    by (simp add: assms(2))
  show "store w2 = (store w)(path := None)"
    unfolding w2 by (simp add: requestDoc_store)
  show "\<exists>evs. trace w2 = trace w @ IdbGet path # IdbDel path # GetDoc path # evs"
    unfolding w2
    using requestDoc_trace [of e path "opt_retryOptions options" "after_del path w"] by simp
  show "filter is_write (trace w2) = filter is_write (trace w) @ [IdbDel path]"
    unfolding w2 by (simp add: requestDoc_writes)
  show "fetches w < fetches w2"
    unfolding w2
    using requestDoc_fetches [of "after_del path w" e path "opt_retryOptions options"] by simp
qed

text \<open>
  The check made on an entry when this call does not set \<open>cacheTime.locked\<close>: the stored
  locked time decides when it is truthy and not bypassed; this call's one-time time decides
  when the lock is bypassed.
\<close>

lemma lock_precedence:
  assumes "js_true (opt_enabled options)"
    and "\<not> js_true (opt_forceRefresh options)"
    and "get_fails e = None"
    and "store w path = Some entry"
    and "\<not> js_true (opt_locked options)"
  shows "(js_truthy (persistentCacheTime entry) \<and> \<not> js_true (opt_bypassLockedTime options) \<longrightarrow>
            getDocWrapper e path options w =
              (if js_less (Fin (now_check e - fetchedAt entry)) (persistentCacheTime entry)
               then (Inr (doc entry), after_get path w)
               else refetch e path options (after_get path w)))
       \<and> (js_true (opt_bypassLockedTime options) \<longrightarrow>
            getDocWrapper e path options w =
              (if js_less (Fin (now_check e - fetchedAt entry)) (opt_time options)
               then (Inr (doc entry), after_get path w)
               else refetch e path options (after_get path w)))"
  using assms by (simp add: getDocWrapper_checked cache_fresh_def)

text \<open>
  The fetcher depends on the environment through \<open>getDoc\<close> alone, and the value the call
  settles with never depends on whether \<open>set\<close> rejects.
\<close>

lemma request_env_cong:
  assumes "getDoc e = getDoc e'"
  shows "request e path ro retries w = request e' path ro retries w"
  using assms
proof (induction e path ro retries w rule: request_cases_induct)
  case (answer e path ro retries w snap)
  then show ?case by (simp add: request_answer)
next
  case (again e path ro retries w err)
  then show ?case
    by (simp add: request_again [OF again(1-4)] request_again [of e' path w err ro])
next
  case (not_listed e path ro retries w err)
  then show ?case by (simp add: request_not_listed [of _ path w err])
next
  case (give_up e path ro retries w err)
  then show ?case by (simp add: request_give_up [of _ path w err])
qed

lemma store_and_resolve_fst:
  "fst (store_and_resolve e path options snap w) = Inr (data snap)"
  by (simp add: store_and_resolve_def)

lemma refetch_ignores_set_outcome:
  "fst (refetch (e\<lparr>set_fails := x\<rparr>) path options w) = fst (refetch e path options w)"
  by (simp add: refetch_def idb_del_def requestDoc_def store_and_resolve_fst
      request_env_cong [of "e\<lparr>set_fails := x\<rparr>" e]
      split: option.splits prod.splits sum.splits)

lemma getDocWrapper_ignores_set_outcome:
  "fst (getDocWrapper (e\<lparr>set_fails := x\<rparr>) path options w) = fst (getDocWrapper e path options w)"
  by (simp add: getDocWrapper_def idb_get_def requestDoc_def store_and_resolve_fst
      refetch_ignores_set_outcome request_env_cong [of "e\<lparr>set_fails := x\<rparr>" e] Let_def
      split: option.splits prod.splits sum.splits)

text \<open>What a forced refresh does, given the outcome \<open>(r, w2)\<close> of its fetch.\<close>

lemma forced_refresh_outcome:
  assumes "js_true (opt_enabled options)"
    and "js_true (opt_forceRefresh options)"
    and "store w path = Some entry"
    and "get_fails e = None"
    and "del_fails e = None"
    and "requestDoc e path (opt_retryOptions options) (after_del path w) = (r, w2)"
  shows "fst (getDocWrapper e path options w) = map_sum id data r
       \<and> (\<exists>evs. trace (snd (getDocWrapper e path options w)) =
                  trace w @ IdbGet path # IdbDel path # GetDoc path # evs)
       \<and> fetches w < fetches (snd (getDocWrapper e path options w))
       \<and> store (snd (getDocWrapper e path options w)) =
           (case r of
              Inl err \<Rightarrow> (store w)(path := None)
            | Inr snap \<Rightarrow>
                (case set_fails e of
                   None \<Rightarrow>
                     (store w)(path \<mapsto>
                       \<lparr>doc = data snap, fetchedAt = now_fetched e,
                        persistentCacheTime =
                          (if js_true (opt_locked options) then opt_time options else None)\<rparr>)
                 | Some x \<Rightarrow> (store w)(path := None)))"
proof -
  note out = refetch_outcome [OF assms(5,6)]
  have eq: "getDocWrapper e path options w =
     (case r of
        Inl err \<Rightarrow> (Inl err, w2)
      | Inr snap \<Rightarrow> store_and_resolve e path options snap w2)"
    using assms(1-4) out(1) by (simp add: getDocWrapper_forced)
  obtain evs where evs: "trace w2 = trace w @ IdbGet path # IdbDel path # GetDoc path # evs"
    using out(3) by blast
  show ?thesis
  proof (cases r)
    case (Inl err)
    then show ?thesis using eq out(2,5) evs by simp
  next
    case (Inr snap)
    then show ?thesis
      using eq out(2,5) evs
      by (simp add: store_and_resolve_simps newDocEntry_def split: option.splits)
  qed
qed

text \<open>Unfolding sets for evaluating a concrete run.\<close>

lemmas scenario_defs =
  mock_env_def mock_getDoc_def test_error_def empty_world_def cached_world_def
  cache_options_def retry_options_def

lemmas option_defs =
  opt_enabled_def opt_forceRefresh_def opt_cacheTime_def opt_locked_def opt_time_def
  opt_bypassLockedTime_def opt_retryOptions_def

lemmas run_defs =
  requestDoc_def request.simps maxRetries_of_def retryDelay_of_def note_getDoc_def timeout_def
  after_get_def after_del_def
lemmas wrapper_defs =
  getDocWrapper_def refetch_def store_and_resolve_def newDocEntry_def
  idb_get_def idb_del_def idb_set_def

section \<open>Properties of the cache decisions\<close>

text \<open>
  C1, as amended. With \<open>cacheOptions.enabled\<close> and \<open>forceRefresh\<close> both truthy, an
  entry present, and \<open>get\<close> and \<open>del\<close> of the store succeeding: the entry is deleted,
  then the remote is asked, whatever the entry's locked time, its age and this call's
  \<open>cacheTime\<close>. The call settles with the outcome \<open>r\<close> of that fetch: the fresh payload,
  or the fetch's rejection. Afterwards the store holds the fresh entry under the path if
  the fetch and \<open>set\<close> both succeeded, and no entry under the path otherwise. With
  \<open>cacheOptions.enabled\<close> falsy, two calls whose options agree on \<open>retryOptions\<close> do
  the same, whatever their \<open>forceRefresh\<close> and \<open>cacheTime\<close>: the flag is not looked at.
\<close>

theorem forced_refresh_refetches:
  "(js_true (opt_enabled options) \<and> js_true (opt_forceRefresh options)
      \<and> store w path = Some entry \<and> get_fails e = None \<and> del_fails e = None
      \<and> requestDoc e path (opt_retryOptions options) (after_del path w) = (r, w2) \<longrightarrow>
      fst (getDocWrapper e path options w) = map_sum id data r
    \<and> (\<exists>evs. trace (snd (getDocWrapper e path options w)) =
               trace w @ IdbGet path # IdbDel path # GetDoc path # evs)
    \<and> fetches w < fetches (snd (getDocWrapper e path options w))
    \<and> store (snd (getDocWrapper e path options w)) =
        (case r of
           Inl err \<Rightarrow> (store w)(path := None)
         | Inr snap \<Rightarrow>
             (case set_fails e of
                None \<Rightarrow>
                  (store w)(path \<mapsto>
                    \<lparr>doc = data snap, fetchedAt = now_fetched e,
                     persistentCacheTime =
                       (if js_true (opt_locked options) then opt_time options else None)\<rparr>)
              | Some x \<Rightarrow> (store w)(path := None))))
   \<and> (\<not> js_true (opt_enabled options1) \<and> \<not> js_true (opt_enabled options2)
      \<and> opt_retryOptions options1 = opt_retryOptions options2 \<longrightarrow>
      getDocWrapper e' path' options1 w' = getDocWrapper e' path' options2 w')"
proof (intro conjI impI)
  assume "\<not> js_true (opt_enabled options1) \<and> \<not> js_true (opt_enabled options2)
      \<and> opt_retryOptions options1 = opt_retryOptions options2"
  then show "getDocWrapper e' path' options1 w' = getDocWrapper e' path' options2 w'"
    by (cases "get_fails e'") (simp_all add: getDocWrapper_get_fails getDocWrapper_disabled)
next
  assume h: "js_true (opt_enabled options) \<and> js_true (opt_forceRefresh options)
      \<and> store w path = Some entry \<and> get_fails e = None \<and> del_fails e = None
      \<and> requestDoc e path (opt_retryOptions options) (after_del path w) = (r, w2)"
  then have h1: "js_true (opt_enabled options)" and h2: "js_true (opt_forceRefresh options)"
    and h3: "store w path = Some entry" and h4: "get_fails e = None"
    and h5: "del_fails e = None"
    and h6: "requestDoc e path (opt_retryOptions options) (after_del path w) = (r, w2)"
    by blast+
  note out = forced_refresh_outcome [OF h1 h2 h3 h4 h5 h6]
  from out show "fst (getDocWrapper e path options w) = map_sum id data r" by blast
  from out show "\<exists>evs. trace (snd (getDocWrapper e path options w)) =
      trace w @ IdbGet path # IdbDel path # GetDoc path # evs" by blast
  from out show "fetches w < fetches (snd (getDocWrapper e path options w))" by blast
  from out show "store (snd (getDocWrapper e path options w)) =
        (case r of
           Inl err \<Rightarrow> (store w)(path := None)
         | Inr snap \<Rightarrow>
             (case set_fails e of
                None \<Rightarrow>
                  (store w)(path \<mapsto>
                    \<lparr>doc = data snap, fetchedAt = now_fetched e,
                     persistentCacheTime =
                       (if js_true (opt_locked options) then opt_time options else None)\<rparr>)
              | Some x \<Rightarrow> (store w)(path := None)))" by blast
qed

theorem forced_refresh_refetches_witness:
  "js_true (opt_enabled (cache_options (Some True) None (Some True)))
   \<and> js_true (opt_forceRefresh (cache_options (Some True) None (Some True)))
   \<and> fst (getDocWrapper (mock_env ''test2'' 1000) ''validRequest''
          (cache_options (Some True) None (Some True))
          (cached_world ''validRequest''
             \<lparr>doc = Some ''test'', fetchedAt = 900, persistentCacheTime = Some PInf\<rparr>)) =
       Inr (Some ''test2'')
   \<and> store (snd (getDocWrapper (mock_env ''test2'' 1000) ''validRequest''
          (cache_options (Some True) None (Some True))
          (cached_world ''validRequest''
             \<lparr>doc = Some ''test'', fetchedAt = 900, persistentCacheTime = Some PInf\<rparr>)))
        ''validRequest'' =
       Some \<lparr>doc = Some ''test2'', fetchedAt = 1000, persistentCacheTime = None\<rparr>
   \<and> \<not> js_true (opt_enabled (cache_options None None (Some True)))
   \<and> getDocWrapper (mock_env ''test2'' 1000) ''validRequest''
        (cache_options None None (Some True))
        (cached_world ''validRequest''
           \<lparr>doc = Some ''test'', fetchedAt = 900, persistentCacheTime = None\<rparr>) =
       getDocWrapper (mock_env ''test2'' 1000) ''validRequest'' None
        (cached_world ''validRequest''
           \<lparr>doc = Some ''test'', fetchedAt = 900, persistentCacheTime = None\<rparr>)"
  using forced_refresh_refetches [where options = "cache_options (Some True) None (Some True)"
      and e = "mock_env ''test2'' 1000" and path = "''validRequest''"
      and w = "cached_world ''validRequest''
                 \<lparr>doc = Some ''test'', fetchedAt = 900, persistentCacheTime = Some PInf\<rparr>"
      and entry = "\<lparr>doc = Some ''test'', fetchedAt = 900, persistentCacheTime = Some PInf\<rparr>"
      and r = "Inr (Snapshot (Some ''test2''))"
      and ?w2.0 = "note_getDoc ''validRequest''
                 (after_del ''validRequest''
                    (cached_world ''validRequest''
                       \<lparr>doc = Some ''test'', fetchedAt = 900,
                        persistentCacheTime = Some PInf\<rparr>))"
      and ?options1.0 = "cache_options None None (Some True)"
      and ?options2.0 = None
      and e' = "mock_env ''test2'' 1000" and path' = "''validRequest''"
      and w' = "cached_world ''validRequest''
                 \<lparr>doc = Some ''test'', fetchedAt = 900, persistentCacheTime = None\<rparr>"]
  by (simp add: scenario_defs option_defs requestDoc_def request.simps)

text \<open>
  The claim as first stated holds "regardless of the value of \<open>cacheOptions.enabled\<close>".
  With \<open>enabled\<close> unset the disabled branch runs first and never looks at
  \<open>forceRefresh\<close>: a fresh locked entry is served from the cache with no \<open>del\<close> and no
  fetch, and an entry without a lock is left in the store while the fetched payload is
  returned.
\<close>

theorem forced_refresh_disabled_counterexample:
  "js_true (opt_forceRefresh (cache_options None None (Some True)))
   \<and> getDocWrapper (mock_env ''test2'' 1000) ''validRequest''
        (cache_options None None (Some True))
        (cached_world ''validRequest''
           \<lparr>doc = Some ''test'', fetchedAt = 900, persistentCacheTime = Some PInf\<rparr>) =
       (Inr (Some ''test''),
        \<lparr>store = [''validRequest'' \<mapsto>
                    \<lparr>doc = Some ''test'', fetchedAt = 900, persistentCacheTime = Some PInf\<rparr>],
         fetches = 0, trace = [IdbGet ''validRequest'']\<rparr>)
   \<and> getDocWrapper (mock_env ''test2'' 1000) ''validRequest''
        (cache_options None None (Some True))
        (cached_world ''validRequest''
           \<lparr>doc = Some ''test'', fetchedAt = 900, persistentCacheTime = None\<rparr>) =
       (Inr (Some ''test2''),
        \<lparr>store = [''validRequest'' \<mapsto>
                    \<lparr>doc = Some ''test'', fetchedAt = 900, persistentCacheTime = None\<rparr>],
         fetches = 1, trace = [IdbGet ''validRequest'', GetDoc ''validRequest'']\<rparr>)"
  by (simp add: scenario_defs option_defs wrapper_defs run_defs)

text \<open>
  C2, where the code departs from the claim. The promise of \<open>set\<close> is neither awaited
  nor returned, so its rejection reaches nobody: with the cache enabled, no entry, a remote
  that answers and a store whose \<open>set\<close> rejects, the call resolves with the fetched
  payload and the store stays empty. (Rejections of \<open>get\<close> and \<open>del\<close> are passed on:
  \<open>getDocWrapper_get_fails\<close>, \<open>refetch_del_fails\<close>; and no rejection of \<open>set\<close> ever
  changes the value the call settles with: \<open>getDocWrapper_ignores_set_outcome\<close>.)
\<close>

theorem set_failure_is_swallowed:
  "getDocWrapper ((mock_env ''test'' 1000)\<lparr>set_fails := Some ''QuotaExceededError''\<rparr>)
     ''validRequest'' (cache_options (Some True) None None) empty_world =
   (Inr (Some ''test''),
    \<lparr>store = Map.empty, fetches = 1,
     trace = [IdbGet ''validRequest'', GetDoc ''validRequest'',
              IdbSet ''validRequest''
                \<lparr>doc = Some ''test'', fetchedAt = 1000, persistentCacheTime = None\<rparr>]\<rparr>)"
  by (simp add: scenario_defs option_defs wrapper_defs run_defs)

text \<open>
  C5. When \<open>cacheOptions.enabled\<close> is falsy, the call serves the cached document
  exactly when an entry exists whose locked time (\<open>persistentCacheTime\<close>) exceeds the
  time elapsed since \<open>fetchedAt\<close>; otherwise it passes the (retried) fetch through,
  payload or rejection. Whatever happens, the store's contents are unchanged and no
  \<open>set\<close> or \<open>del\<close> is issued.
\<close>

theorem cache_disabled_never_writes:
  assumes "\<not> js_true (opt_enabled options)"
  shows "store (snd (getDocWrapper e path options w)) = store w
       \<and> filter is_write (trace (snd (getDocWrapper e path options w))) = filter is_write (trace w)
       \<and> (get_fails e = None \<longrightarrow>
            getDocWrapper e path options w =
              (if (case store w path of
                     None \<Rightarrow> False
                   | Some entry \<Rightarrow>
                       js_less (Fin (now_check e - fetchedAt entry)) (persistentCacheTime entry))
               then (Inr (Option.bind (store w path) doc), after_get path w)
               else (map_sum id data
                       (fst (requestDoc e path (opt_retryOptions options) (after_get path w))),
                     snd (requestDoc e path (opt_retryOptions options) (after_get path w)))))"
proof (cases "get_fails e")
  case (Some x)
  then show ?thesis by (simp add: getDocWrapper_get_fails)
next
  case None
  note eq = getDocWrapper_disabled [OF None assms, of path w]
  have "store (snd (getDocWrapper e path options w)) = store w"
    unfolding eq by (simp add: requestDoc_store)
  moreover have "filter is_write (trace (snd (getDocWrapper e path options w))) =
      filter is_write (trace w)"
    unfolding eq by (simp add: requestDoc_writes)
  ultimately show ?thesis using eq by blast
qed

theorem cache_disabled_never_writes_witness:
  "\<not> js_true (opt_enabled None)
   \<and> get_fails (mock_env ''test2'' 1000) = None
   \<and> getDocWrapper (mock_env ''test2'' 1000) ''validRequest'' None
        (cached_world ''validRequest''
           \<lparr>doc = Some ''test'', fetchedAt = 900, persistentCacheTime = Some PInf\<rparr>) =
       (Inr (Some ''test''),
        after_get ''validRequest''
          (cached_world ''validRequest''
             \<lparr>doc = Some ''test'', fetchedAt = 900, persistentCacheTime = Some PInf\<rparr>))
   \<and> fst (getDocWrapper (mock_env ''test2'' 1000) ''validRequest'' None empty_world) =
       Inr (Some ''test2'')
   \<and> store (snd (getDocWrapper (mock_env ''test2'' 1000) ''validRequest'' None empty_world)) =
       store empty_world"
  using cache_disabled_never_writes [of None "mock_env ''test2'' 1000" "''validRequest''"
      "cached_world ''validRequest''
         \<lparr>doc = Some ''test'', fetchedAt = 900, persistentCacheTime = Some PInf\<rparr>"]
    cache_disabled_never_writes [of None "mock_env ''test2'' 1000" "''validRequest''" empty_world]
  by (simp add: scenario_defs option_defs run_defs)

text \<open>
  C6, where the code departs from the claim. A first call that locks a time of \<open>0\<close>
  stores \<open>persistentCacheTime = 0\<close>. The later test \<open>persistentCacheTime && ...\<close> reads
  that \<open>0\<close> as "no lock": a call with cache enabled, no \<open>bypassLockedTime\<close>, no
  \<open>locked\<close> and a one-time time of \<open>+\<infinity>\<close> is checked against the one-time time and
  serves the cached document, although the entry is stale against its stored locked time.
  For a truthy stored time the claim holds: \<open>lock_precedence\<close>.
\<close>

theorem zero_lock_not_enforced:
  "getDocWrapper (mock_env ''test'' 900) ''validRequest''
     (cache_options (Some True)
        (Some \<lparr>locked = Some True, time = Some (Fin 0), bypassLockedTime = None\<rparr>) None)
     empty_world =
   (Inr (Some ''test''),
    \<lparr>store = [''validRequest'' \<mapsto>
                \<lparr>doc = Some ''test'', fetchedAt = 900, persistentCacheTime = Some (Fin 0)\<rparr>],
     fetches = 1,
     trace = [IdbGet ''validRequest'', GetDoc ''validRequest'',
              IdbSet ''validRequest''
                \<lparr>doc = Some ''test'', fetchedAt = 900, persistentCacheTime = Some (Fin 0)\<rparr>]\<rparr>)
   \<and> \<not> js_less (Fin (1000 - 900)) (Some (Fin 0))
   \<and> getDocWrapper (mock_env ''test2'' 1000) ''validRequest''
       (cache_options (Some True)
          (Some \<lparr>locked = None, time = Some PInf, bypassLockedTime = None\<rparr>) None)
       (cached_world ''validRequest''
          \<lparr>doc = Some ''test'', fetchedAt = 900, persistentCacheTime = Some (Fin 0)\<rparr>) =
     (Inr (Some ''test''),
      \<lparr>store = [''validRequest'' \<mapsto>
                  \<lparr>doc = Some ''test'', fetchedAt = 900, persistentCacheTime = Some (Fin 0)\<rparr>],
       fetches = 0, trace = [IdbGet ''validRequest'']\<rparr>)"
  by (simp add: scenario_defs option_defs wrapper_defs run_defs)

text \<open>
  C7. Cache enabled, no forced refresh, an entry with a locked time, no bypass, and
  \<open>cacheTime.locked\<close> set on this call: the entry's age is compared with this call's
  \<open>cacheTime.time\<close>, never with the stored time. When fresh, the cached document is
  served after the single \<open>get\<close>: the store is unchanged (so the new time is not
  persisted), nothing is fetched. When stale, the refetch runs.
\<close>

theorem lock_override_checks_new_time:
  assumes "js_true (opt_enabled options)"
    and "\<not> js_true (opt_forceRefresh options)"
    and "get_fails e = None"
    and "store w path = Some entry"
    and "persistentCacheTime entry = Some t"
    and "\<not> js_true (opt_bypassLockedTime options)"
    and "js_true (opt_locked options)"
  shows "getDocWrapper e path options w =
           (if js_less (Fin (now_check e - fetchedAt entry)) (opt_time options)
            then (Inr (doc entry), after_get path w)
            else refetch e path options (after_get path w))
       \<and> (js_less (Fin (now_check e - fetchedAt entry)) (opt_time options) \<longrightarrow>
            fst (getDocWrapper e path options w) = Inr (doc entry)
          \<and> store (snd (getDocWrapper e path options w)) = store w
          \<and> fetches (snd (getDocWrapper e path options w)) = fetches w
          \<and> trace (snd (getDocWrapper e path options w)) = trace w @ [IdbGet path])"
  using assms by (simp add: getDocWrapper_checked cache_fresh_def)

theorem lock_override_checks_new_time_witness:
  "getDocWrapper (mock_env ''test2'' 1000) ''validRequest''
     (cache_options (Some True)
        (Some \<lparr>locked = Some True, time = Some (Fin 500), bypassLockedTime = None\<rparr>) None)
     (cached_world ''validRequest''
        \<lparr>doc = Some ''test'', fetchedAt = 900, persistentCacheTime = Some (Fin 10)\<rparr>) =
   (Inr (Some ''test''),
    after_get ''validRequest''
      (cached_world ''validRequest''
         \<lparr>doc = Some ''test'', fetchedAt = 900, persistentCacheTime = Some (Fin 10)\<rparr>))
   \<and> store (snd (getDocWrapper (mock_env ''test2'' 1000) ''validRequest''
       (cache_options (Some True)
          (Some \<lparr>locked = Some True, time = Some (Fin 500), bypassLockedTime = None\<rparr>) None)
       (cached_world ''validRequest''
          \<lparr>doc = Some ''test'', fetchedAt = 900, persistentCacheTime = Some (Fin 10)\<rparr>)))
       ''validRequest'' =
     Some \<lparr>doc = Some ''test'', fetchedAt = 900, persistentCacheTime = Some (Fin 10)\<rparr>
   \<and> fst (getDocWrapper (mock_env ''test2'' 1000) ''validRequest''
       (cache_options (Some True)
          (Some \<lparr>locked = Some True, time = Some (Fin 50), bypassLockedTime = None\<rparr>) None)
       (cached_world ''validRequest''
          \<lparr>doc = Some ''test'', fetchedAt = 900, persistentCacheTime = Some PInf\<rparr>)) =
     Inr (Some ''test2'')"
  using
    lock_override_checks_new_time [where e = "mock_env ''test2'' 1000"
      and path = "''validRequest''"
      and options = "cache_options (Some True)
          (Some \<lparr>locked = Some True, time = Some (Fin 500), bypassLockedTime = None\<rparr>) None"
      and w = "cached_world ''validRequest''
          \<lparr>doc = Some ''test'', fetchedAt = 900, persistentCacheTime = Some (Fin 10)\<rparr>"
      and entry = "\<lparr>doc = Some ''test'', fetchedAt = 900, persistentCacheTime = Some (Fin 10)\<rparr>"
      and t = "Fin 10"]
    lock_override_checks_new_time [where e = "mock_env ''test2'' 1000"
      and path = "''validRequest''"
      and options = "cache_options (Some True)
          (Some \<lparr>locked = Some True, time = Some (Fin 50), bypassLockedTime = None\<rparr>) None"
      and w = "cached_world ''validRequest''
          \<lparr>doc = Some ''test'', fetchedAt = 900, persistentCacheTime = Some PInf\<rparr>"
      and entry = "\<lparr>doc = Some ''test'', fetchedAt = 900, persistentCacheTime = Some PInf\<rparr>"
      and t = PInf]
  by (simp add: scenario_defs option_defs run_defs refetch_def store_and_resolve_def
      idb_del_def idb_set_def)

text \<open>
  C8. Cache enabled, no forced refresh, an entry present and judged stale, \<open>get\<close> and
  \<open>del\<close> succeeding, and the fetch answering with \<open>snap\<close>: the entry is deleted before
  the fetch, the call resolves with \<open>snap.data()\<close>, and the last thing it does is \<open>set\<close>
  an entry with that payload, \<open>fetchedAt\<close> the time read after the fetch, and
  \<open>persistentCacheTime\<close> this call's \<open>cacheTime.time\<close> if \<open>cacheTime.locked\<close> is truthy
  and absent otherwise, so that a lock held before is dropped. The store then holds
  exactly that entry under the path (none, should \<open>set\<close> reject).
\<close>

theorem stale_refetch_rewrites_entry:
  assumes "js_true (opt_enabled options)"
    and "\<not> js_true (opt_forceRefresh options)"
    and "get_fails e = None"
    and "del_fails e = None"
    and "store w path = Some entry"
    and "\<not> cache_fresh e options entry"
    and "requestDoc e path (opt_retryOptions options) (after_del path w) = (Inr snap, w2)"
  shows "fst (getDocWrapper e path options w) = Inr (data snap)
       \<and> store w2 = (store w)(path := None)
       \<and> (\<exists>evs. trace w2 = trace w @ IdbGet path # IdbDel path # GetDoc path # evs)
       \<and> trace (snd (getDocWrapper e path options w)) =
           trace w2 @
             [IdbSet path
                \<lparr>doc = data snap, fetchedAt = now_fetched e,
                 persistentCacheTime =
                   (if js_true (opt_locked options) then opt_time options else None)\<rparr>]
       \<and> store (snd (getDocWrapper e path options w)) =
           (case set_fails e of
              None \<Rightarrow>
                (store w)(path \<mapsto>
                  \<lparr>doc = data snap, fetchedAt = now_fetched e,
                   persistentCacheTime =
                     (if js_true (opt_locked options) then opt_time options else None)\<rparr>)
            | Some x \<Rightarrow> (store w)(path := None))"
proof -
  note out = refetch_outcome [OF assms(4,7)]
  have "getDocWrapper e path options w = store_and_resolve e path options snap w2"
    using assms(1-3,5,6) out(1) by (simp add: getDocWrapper_checked)
  then show ?thesis
    using out(2,3)
    by (simp add: store_and_resolve_simps newDocEntry_def split: option.splits)
qed

theorem stale_refetch_rewrites_entry_witness:
  "\<not> cache_fresh (mock_env ''test2'' 1000)
       (cache_options (Some True)
          (Some \<lparr>locked = None, time = Some (Fin 0), bypassLockedTime = Some True\<rparr>) None)
       \<lparr>doc = Some ''test'', fetchedAt = 900, persistentCacheTime = Some PInf\<rparr>
   \<and> fst (getDocWrapper (mock_env ''test2'' 1000) ''validRequest''
       (cache_options (Some True)
          (Some \<lparr>locked = None, time = Some (Fin 0), bypassLockedTime = Some True\<rparr>) None)
       (cached_world ''validRequest''
          \<lparr>doc = Some ''test'', fetchedAt = 900, persistentCacheTime = Some PInf\<rparr>)) =
     Inr (Some ''test2'')
   \<and> store (snd (getDocWrapper (mock_env ''test2'' 1000) ''validRequest''
       (cache_options (Some True)
          (Some \<lparr>locked = None, time = Some (Fin 0), bypassLockedTime = Some True\<rparr>) None)
       (cached_world ''validRequest''
          \<lparr>doc = Some ''test'', fetchedAt = 900, persistentCacheTime = Some PInf\<rparr>)))
       ''validRequest'' =
     Some \<lparr>doc = Some ''test2'', fetchedAt = 1000, persistentCacheTime = None\<rparr>"
  using
    stale_refetch_rewrites_entry [where e = "mock_env ''test2'' 1000"
      and path = "''validRequest''"
      and options = "cache_options (Some True)
          (Some \<lparr>locked = None, time = Some (Fin 0), bypassLockedTime = Some True\<rparr>) None"
      and w = "cached_world ''validRequest''
          \<lparr>doc = Some ''test'', fetchedAt = 900, persistentCacheTime = Some PInf\<rparr>"
      and entry = "\<lparr>doc = Some ''test'', fetchedAt = 900, persistentCacheTime = Some PInf\<rparr>"
      and snap = "Snapshot (Some ''test2'')"
      and ?w2.0 = "note_getDoc ''validRequest''
          (after_del ''validRequest''
             (cached_world ''validRequest''
                \<lparr>doc = Some ''test'', fetchedAt = 900, persistentCacheTime = Some PInf\<rparr>))"]
  by (simp add: scenario_defs option_defs cache_fresh_def requestDoc_def request.simps)

text \<open>
  C9. Cache enabled, an entry present, and a refresh forced or the entry judged stale,
  \<open>get\<close> and \<open>del\<close> succeeding: the deletion precedes the first \<open>getDoc\<close>. If the
  (retried) fetch ends in a rejection, the call rejects with it, \<open>del\<close> is the only write
  made, and the store holds no entry under the path any more.
\<close>

theorem failed_refetch_loses_entry:
  assumes "js_true (opt_enabled options)"
    and "get_fails e = None"
    and "del_fails e = None"
    and "store w path = Some entry"
    and "js_true (opt_forceRefresh options) \<or> \<not> cache_fresh e options entry"
    and "requestDoc e path (opt_retryOptions options) (after_del path w) = (Inl err, w2)"
  shows "getDocWrapper e path options w = (Inl err, w2)
       \<and> (\<exists>evs. trace w2 = trace w @ IdbGet path # IdbDel path # GetDoc path # evs)
       \<and> filter is_write (trace w2) = filter is_write (trace w) @ [IdbDel path]
       \<and> store w2 = (store w)(path := None)
       \<and> store (snd (getDocWrapper e path options w)) path = None"
proof -
  note out = refetch_outcome [OF assms(3,6)]
  have "getDocWrapper e path options w = refetch e path options (after_get path w)"
  proof (cases "js_true (opt_forceRefresh options)")
    case True
    with assms(1,2,4) show ?thesis by (simp add: getDocWrapper_forced)
  next
    case False
    with assms(1,2,4,5) show ?thesis by (simp add: getDocWrapper_checked)
  qed
  then have "getDocWrapper e path options w = (Inl err, w2)"
    using out(1) by simp
  then show ?thesis using out(2,3,4) by simp
qed

theorem failed_refetch_loses_entry_witness:
  "fst (getDocWrapper (mock_env ''test2'' 1000) ''invalidRequest''
       (cache_options (Some True) None (Some True))
       (cached_world ''invalidRequest''
          \<lparr>doc = Some ''test'', fetchedAt = 900, persistentCacheTime = Some PInf\<rparr>)) =
     Inl (Thrown test_error)
   \<and> store (snd (getDocWrapper (mock_env ''test2'' 1000) ''invalidRequest''
       (cache_options (Some True) None (Some True))
       (cached_world ''invalidRequest''
          \<lparr>doc = Some ''test'', fetchedAt = 900, persistentCacheTime = Some PInf\<rparr>)))
       ''invalidRequest'' = None
   \<and> \<not> cache_fresh (mock_env ''test2'' 1000) (cache_options (Some True) None None)
       \<lparr>doc = Some ''test'', fetchedAt = 900, persistentCacheTime = None\<rparr>
   \<and> fst (getDocWrapper (mock_env ''test2'' 1000) ''invalidRequest''
       (cache_options (Some True) None None)
       (cached_world ''invalidRequest''
          \<lparr>doc = Some ''test'', fetchedAt = 900, persistentCacheTime = None\<rparr>)) =
     Inl (Thrown test_error)
   \<and> store (snd (getDocWrapper (mock_env ''test2'' 1000) ''invalidRequest''
       (cache_options (Some True) None None)
       (cached_world ''invalidRequest''
          \<lparr>doc = Some ''test'', fetchedAt = 900, persistentCacheTime = None\<rparr>)))
       ''invalidRequest'' = None"
  using
    failed_refetch_loses_entry [where e = "mock_env ''test2'' 1000"
      and path = "''invalidRequest''"
      and options = "cache_options (Some True) None (Some True)"
      and w = "cached_world ''invalidRequest''
          \<lparr>doc = Some ''test'', fetchedAt = 900, persistentCacheTime = Some PInf\<rparr>"
      and entry = "\<lparr>doc = Some ''test'', fetchedAt = 900, persistentCacheTime = Some PInf\<rparr>"
      and err = "Thrown test_error"
      and ?w2.0 = "note_getDoc ''invalidRequest''
          (after_del ''invalidRequest''
             (cached_world ''invalidRequest''
                \<lparr>doc = Some ''test'', fetchedAt = 900, persistentCacheTime = Some PInf\<rparr>))"]
    failed_refetch_loses_entry [where e = "mock_env ''test2'' 1000"
      and path = "''invalidRequest''"
      and options = "cache_options (Some True) None None"
      and w = "cached_world ''invalidRequest''
          \<lparr>doc = Some ''test'', fetchedAt = 900, persistentCacheTime = None\<rparr>"
      and entry = "\<lparr>doc = Some ''test'', fetchedAt = 900, persistentCacheTime = None\<rparr>"
      and err = "Thrown test_error"
      and ?w2.0 = "note_getDoc ''invalidRequest''
          (after_del ''invalidRequest''
             (cached_world ''invalidRequest''
                \<lparr>doc = Some ''test'', fetchedAt = 900, persistentCacheTime = None\<rparr>))"]
  by (simp add: scenario_defs option_defs cache_fresh_def requestDoc_def request.simps)

section \<open>Properties of the retrying fetcher\<close>

text \<open>
  C3, as amended. For \<open>N \<ge> 1\<close>, a call with \<open>maxRetries = N\<close> makes at most \<open>N\<close>
  attempts, whatever the remote answers and whatever the other retry options are. Let
  retrying be enabled and let the remote fail on the next \<open>N - 1\<close> attempts, each time
  with an error that the allow-list (if one is configured) lets through, and answer on the
  \<open>N\<close>-th. For \<open>N \<ge> 1\<close> and \<open>maxRetries = N\<close> the call succeeds with that snapshot
  after exactly \<open>N\<close> attempts. For \<open>N \<ge> 2\<close> and \<open>maxRetries = N - 1\<close> the call rejects
  with the error of its last attempt, as the remote threw it, after \<open>N - 1\<close> attempts.
\<close>

theorem retry_budget:
  fixes N :: nat
  shows "(1 \<le> N \<longrightarrow>
            fetches (snd (requestDoc e' path' (Some (ro'\<lparr>maxRetries := Some (int N)\<rparr>)) w')) \<le>
              fetches w' + N)
       \<and> (js_true (retry_enabled ro)
            \<and> (\<forall>k<N - 1. getDoc e path (fetches w + k) = Inl (errs k)
                    \<and> retried (Some ro) (errs k))
            \<and> getDoc e path (fetches w + (N - 1)) = Inr snap \<longrightarrow>
            (1 \<le> N \<longrightarrow>
               fst (requestDoc e path (Some (ro\<lparr>maxRetries := Some (int N)\<rparr>)) w) = Inr snap
             \<and> fetches (snd (requestDoc e path (Some (ro\<lparr>maxRetries := Some (int N)\<rparr>)) w)) =
                 fetches w + N)
          \<and> (2 \<le> N \<longrightarrow>
               fst (requestDoc e path (Some (ro\<lparr>maxRetries := Some (int N - 1)\<rparr>)) w) =
                 Inl (Thrown (errs (N - 2)))
             \<and> fetches (snd (requestDoc e path (Some (ro\<lparr>maxRetries := Some (int N - 1)\<rparr>)) w)) =
                 fetches w + (N - 1)))"
proof (intro conjI)
  show "1 \<le> N \<longrightarrow>
      fetches (snd (requestDoc e' path' (Some (ro'\<lparr>maxRetries := Some (int N)\<rparr>)) w')) \<le>
        fetches w' + N"
  proof
    assume N: "1 \<le> N"
    then have "maxRetries_of (Some (ro'\<lparr>maxRetries := Some (int N)\<rparr>)) = int N"
      by (simp add: maxRetries_of_def)
    with N show "fetches (snd (requestDoc e' path' (Some (ro'\<lparr>maxRetries := Some (int N)\<rparr>)) w')) \<le>
        fetches w' + N"
      using request_attempts [of 0 "Some (ro'\<lparr>maxRetries := Some (int N)\<rparr>)" e' path' w']
      by (simp add: requestDoc_def)
  qed
next
  show "js_true (retry_enabled ro)
      \<and> (\<forall>k<N - 1. getDoc e path (fetches w + k) = Inl (errs k) \<and> retried (Some ro) (errs k))
      \<and> getDoc e path (fetches w + (N - 1)) = Inr snap \<longrightarrow>
      (1 \<le> N \<longrightarrow>
         fst (requestDoc e path (Some (ro\<lparr>maxRetries := Some (int N)\<rparr>)) w) = Inr snap
       \<and> fetches (snd (requestDoc e path (Some (ro\<lparr>maxRetries := Some (int N)\<rparr>)) w)) =
           fetches w + N)
    \<and> (2 \<le> N \<longrightarrow>
         fst (requestDoc e path (Some (ro\<lparr>maxRetries := Some (int N - 1)\<rparr>)) w) =
           Inl (Thrown (errs (N - 2)))
       \<and> fetches (snd (requestDoc e path (Some (ro\<lparr>maxRetries := Some (int N - 1)\<rparr>)) w)) =
           fetches w + (N - 1))"
  proof
    assume h: "js_true (retry_enabled ro)
      \<and> (\<forall>k<N - 1. getDoc e path (fetches w + k) = Inl (errs k) \<and> retried (Some ro) (errs k))
      \<and> getDoc e path (fetches w + (N - 1)) = Inr snap"
    then have h1: "js_true (retry_enabled ro)"
      and h2: "\<forall>k<N - 1. getDoc e path (fetches w + k) = Inl (errs k) \<and> retried (Some ro) (errs k)"
      and h3: "getDoc e path (fetches w + (N - 1)) = Inr snap"
      by blast+
    show "(1 \<le> N \<longrightarrow>
         fst (requestDoc e path (Some (ro\<lparr>maxRetries := Some (int N)\<rparr>)) w) = Inr snap
       \<and> fetches (snd (requestDoc e path (Some (ro\<lparr>maxRetries := Some (int N)\<rparr>)) w)) =
           fetches w + N)
    \<and> (2 \<le> N \<longrightarrow>
         fst (requestDoc e path (Some (ro\<lparr>maxRetries := Some (int N - 1)\<rparr>)) w) =
           Inl (Thrown (errs (N - 2)))
       \<and> fetches (snd (requestDoc e path (Some (ro\<lparr>maxRetries := Some (int N - 1)\<rparr>)) w)) =
           fetches w + (N - 1))"
      by (rule request_failure_pattern [OF h1 h2 h3])
  qed
qed

theorem retry_budget_witness:
  "js_true (retry_enabled (retry_options None None))
   \<and> fst (requestDoc (mock_env ''test'' 1000) ''validRequestAfterThreeRetries''
          (Some ((retry_options None None)\<lparr>maxRetries := Some 3\<rparr>)) empty_world) =
       Inr (Snapshot (Some ''test''))
   \<and> fetches (snd (requestDoc (mock_env ''test'' 1000) ''validRequestAfterThreeRetries''
          (Some ((retry_options None None)\<lparr>maxRetries := Some 3\<rparr>)) empty_world)) = 3
   \<and> fetches (snd (requestDoc (mock_env ''test'' 1000) ''invalidRequest''
          (Some ((retry_options None None)\<lparr>maxRetries := Some 3\<rparr>)) empty_world)) \<le> 3
   \<and> fst (requestDoc (mock_env ''test'' 1000) ''validRequestAfterThreeRetries''
          (Some ((retry_options None None)\<lparr>maxRetries := Some 2\<rparr>)) empty_world) =
       Inl (Thrown test_error)
   \<and> fetches (snd (requestDoc (mock_env ''test'' 1000) ''validRequestAfterThreeRetries''
          (Some ((retry_options None None)\<lparr>maxRetries := Some 2\<rparr>)) empty_world)) = 2"
  using retry_budget [where N = 3 and ro = "retry_options None None"
      and e = "mock_env ''test'' 1000" and path = "''validRequestAfterThreeRetries''"
      and w = empty_world and errs = "\<lambda>k. test_error" and snap = "Snapshot (Some ''test'')"
      and e' = "mock_env ''test'' 1000" and path' = "''invalidRequest''" and w' = empty_world
      and ro' = "retry_options None None"]
  by (simp add: mock_env_def mock_getDoc_def empty_world_def retry_options_def retried_def)

text \<open>
  The claim as first stated also covers \<open>N = 1\<close> and any allow-list. At \<open>N = 1\<close> the
  smaller budget is \<open>maxRetries = 0\<close>, which is read as \<open>3\<close>, and the remote does not
  fail at all: the call succeeds. With an allow-list that lacks the error's code, the call
  with \<open>maxRetries = 3\<close> on a remote that fails twice and then answers is rejected at the
  first failure.
\<close>

theorem retry_budget_counterexample:
  "fst (requestDoc (mock_env ''test'' 1000) ''validRequest''
          (Some (retry_options (Some 0) None)) empty_world) = Inr (Snapshot (Some ''test''))
   \<and> fst (requestDoc (mock_env ''test'' 1000) ''validRequestAfterThreeRetries''
          (Some (retry_options (Some 3) (Some [''test-error-code-2'']))) empty_world) =
       Inl (JsError not_in_list_message)"
  by (simp add: scenario_defs run_defs)

text \<open>
  C4. Retrying is enabled, an allow-list is configured, and the attempt made at counter
  \<open>retries\<close> fails. With budget left (\<open>retries < maxRetries - 1\<close>) and the error's code
  outside the list, the call ends there with the wrapper's own error: one \<open>getDoc\<close>, no
  delay, no further attempt. With budget left and the code in the list, the delay and the
  next attempt follow, the counter one higher. With the counter at \<open>maxRetries - 1\<close> or
  beyond, the call ends with the error as the remote threw it, whatever its code.
\<close>

theorem allow_list_policy:
  assumes "js_true (Option.bind ro retry_enabled)"
    and "Option.bind ro retryOnErrorCode = Some codes"
    and "getDoc e path (fetches w) = Inl err"
  shows "(int retries < maxRetries_of ro - 1 \<and> \<not> includes_code codes (code err) \<longrightarrow>
            request e path ro retries w =
              (Inl (JsError not_in_list_message), note_getDoc path w))
       \<and> (int retries < maxRetries_of ro - 1 \<and> includes_code codes (code err) \<longrightarrow>
            request e path ro retries w =
              request e path ro (Suc retries) (timeout (retryDelay_of ro) (note_getDoc path w)))
       \<and> (maxRetries_of ro - 1 \<le> int retries \<longrightarrow>
            request e path ro retries w = (Inl (Thrown err), note_getDoc path w))"
proof (intro conjI impI)
  assume "int retries < maxRetries_of ro - 1 \<and> \<not> includes_code codes (code err)"
  with assms show "request e path ro retries w =
      (Inl (JsError not_in_list_message), note_getDoc path w)"
    by (intro request_not_listed [of e path w err]) (simp_all add: retried_def)
next
  assume "int retries < maxRetries_of ro - 1 \<and> includes_code codes (code err)"
  with assms show "request e path ro retries w =
      request e path ro (Suc retries) (timeout (retryDelay_of ro) (note_getDoc path w))"
    by (intro request_again [of e path w err]) (simp_all add: retried_def)
next
  assume "maxRetries_of ro - 1 \<le> int retries"
  with assms show "request e path ro retries w = (Inl (Thrown err), note_getDoc path w)"
    by (intro request_give_up) simp_all
qed

theorem allow_list_policy_witness:
  "request (mock_env ''test'' 1000) ''validRequestAfterThreeRetries''
     (Some (retry_options (Some 5) (Some [''test-error-code-2'']))) 0 empty_world =
     (Inl (JsError not_in_list_message),
      note_getDoc ''validRequestAfterThreeRetries'' empty_world)
   \<and> request (mock_env ''test'' 1000) ''validRequestAfterThreeRetries''
       (Some (retry_options (Some 3) (Some [''random-test-code'', ''test-error-code'']))) 0
       empty_world =
     request (mock_env ''test'' 1000) ''validRequestAfterThreeRetries''
       (Some (retry_options (Some 3) (Some [''random-test-code'', ''test-error-code'']))) 1
       (timeout 0 (note_getDoc ''validRequestAfterThreeRetries'' empty_world))
   \<and> request (mock_env ''test'' 1000) ''invalidRequest''
       (Some (retry_options (Some 3) (Some [''test-error-code-2'']))) 2 empty_world =
     (Inl (Thrown test_error), note_getDoc ''invalidRequest'' empty_world)"
  using
    allow_list_policy [of "Some (retry_options (Some 5) (Some [''test-error-code-2'']))"
      "[''test-error-code-2'']" "mock_env ''test'' 1000" "''validRequestAfterThreeRetries''"
      empty_world test_error 0]
    allow_list_policy [of
      "Some (retry_options (Some 3) (Some [''random-test-code'', ''test-error-code'']))"
      "[''random-test-code'', ''test-error-code'']" "mock_env ''test'' 1000"
      "''validRequestAfterThreeRetries''" empty_world test_error 0]
    allow_list_policy [of "Some (retry_options (Some 3) (Some [''test-error-code-2'']))"
      "[''test-error-code-2'']" "mock_env ''test'' 1000" "''invalidRequest''"
      empty_world test_error 2]
  by (simp add: scenario_defs maxRetries_of_def retryDelay_of_def)

text \<open>
  C10. A falsy \<open>maxRetries\<close> (\<open>0\<close> or absent) makes \<open>requestDoc\<close> behave exactly
  as \<open>maxRetries = 3\<close> does, so no caller can ask for a budget of zero attempts; a falsy
  \<open>retryDelay\<close> behaves exactly as a delay of \<open>0\<close>. This holds whether or not retrying
  is enabled.
\<close>

theorem falsy_budget_is_default:
  "requestDoc e path (Some (ro\<lparr>maxRetries := Some 0\<rparr>)) w =
     requestDoc e path (Some (ro\<lparr>maxRetries := Some 3\<rparr>)) w
   \<and> requestDoc e path (Some (ro\<lparr>maxRetries := None\<rparr>)) w =
     requestDoc e path (Some (ro\<lparr>maxRetries := Some 3\<rparr>)) w
   \<and> requestDoc e path (Some (ro\<lparr>retryDelay := None\<rparr>)) w =
     requestDoc e path (Some (ro\<lparr>retryDelay := Some 0\<rparr>)) w"
  unfolding requestDoc_def
  by (intro conjI request_options_cong) (simp_all add: maxRetries_of_def retryDelay_of_def)

theorem falsy_budget_is_default_witness:
  "requestDoc (mock_env ''test'' 1000) ''validRequestAfterThreeRetries''
     (Some (retry_options (Some 0) None)) empty_world =
   (Inr (Snapshot (Some ''test'')),
    \<lparr>store = Map.empty, fetches = 3,
     trace = [GetDoc ''validRequestAfterThreeRetries'', Timeout 0,
              GetDoc ''validRequestAfterThreeRetries'', Timeout 0,
              GetDoc ''validRequestAfterThreeRetries'']\<rparr>)
   \<and> fst (requestDoc (mock_env ''test'' 1000) ''invalidRequest''
          (Some (retry_options (Some 0) None)) empty_world) = Inl (Thrown test_error)
   \<and> fetches (snd (requestDoc (mock_env ''test'' 1000) ''invalidRequest''
          (Some (retry_options (Some 0) None)) empty_world)) = 3"
proof -
  have eq: "retry_options (Some 0) None = (retry_options (Some 3) None)\<lparr>maxRetries := Some 0\<rparr>"
    by (simp add: retry_options_def)
  show ?thesis
    unfolding eq
    using falsy_budget_is_default [of "mock_env ''test'' 1000" "''validRequestAfterThreeRetries''"
        "retry_options (Some 3) None" empty_world]
      falsy_budget_is_default [of "mock_env ''test'' 1000" "''invalidRequest''"
        "retry_options (Some 3) None" empty_world]
    by (simp add: scenario_defs run_defs)
qed

end
